theory Spec2Isabelle
  imports Main
begin

section \<open>Errors\<close>

text \<open>
  The exception classes of \<^verbatim>\<open>core/utils/exceptions.py\<close>, each carrying its message.
  \<^verbatim>\<open>FileNotFoundError\<close> is the builtin raised by \<^verbatim>\<open>load\<close>; \<^verbatim>\<open>PyException\<close> stands for
  an \<^verbatim>\<open>Exception\<close> raised by a collaborator (a tool hook, a backend, the serving
  runtime, a factory).
\<close>

datatype error =
    MCPStackBuildError string
  | MCPStackConfigError string
  | MCPStackInitializationError string
  | MCPStackPresetError string
  | MCPStackValidationError string
  | FileNotFoundError string
  | PyException string

text \<open>\<^verbatim>\<open>MCPStackError.__str__\<close> (errors raised without details).\<close>

fun str_error :: "error \<Rightarrow> string" where
  "str_error (MCPStackBuildError m) = ''MCPStack Error: '' @ m"
| "str_error (MCPStackConfigError m) = ''MCPStack Error: '' @ m"
| "str_error (MCPStackInitializationError m) = ''MCPStack Error: '' @ m"
| "str_error (MCPStackPresetError m) = ''MCPStack Error: '' @ m"
| "str_error (MCPStackValidationError m) = ''MCPStack Error: '' @ m"
| "str_error (FileNotFoundError m) = m"
| "str_error (PyException m) = m"

section \<open>Stack configuration (\<^verbatim>\<open>core/config.py\<close>)\<close>

text \<open>
  Dictionaries keyed by strings are maps; the process environment \<^verbatim>\<open>os.environ\<close> is
  passed explicitly. The path attributes computed by \<^verbatim>\<open>_set_paths\<close> are read by no
  operation below and are left out.
\<close>

type_synonym environ = "string \<rightharpoonup> string"

record StackConfig =
  log_level :: string
  env_vars :: "string \<rightharpoonup> string"

text \<open>
  Python's \<^verbatim>\<open>value or ""\<close> on an optional string. The values and defaults of
  \<^verbatim>\<open>get_env_var\<close> are strings or \<^verbatim>\<open>None\<close>, as in \<^verbatim>\<open>required_env_vars\<close>.
\<close>

definition or_empty :: "string option \<Rightarrow> string" where
  "or_empty value = (case value of None \<Rightarrow> '''' | Some v \<Rightarrow> (if v = '''' then '''' else v))"

definition get_env_var ::
  "StackConfig \<Rightarrow> environ \<Rightarrow> string \<Rightarrow> string option \<Rightarrow> bool \<Rightarrow> error + string" where
  "get_env_var self environ key dflt raise_if_missing =
     (let value = (case env_vars self key of
                     Some v \<Rightarrow> Some v
                   | None \<Rightarrow> (case environ key of Some v \<Rightarrow> Some v | None \<Rightarrow> dflt))
      in if value = None \<and> raise_if_missing
         then Inl (MCPStackConfigError (''Missing required env var: '' @ key))
         else Inr (or_empty value))"

text \<open>
  \<^verbatim>\<open>merge_env\<close> mutates \<^verbatim>\<open>self.env_vars\<close> entry by entry; the configuration as it is
  when the call ends (normally or by the raise) is returned with the outcome.
  \<^verbatim>\<open>new_env\<close> is the dictionary's items in iteration order.
\<close>

fun merge_env ::
  "StackConfig \<Rightarrow> (string \<times> string) list \<Rightarrow> string \<Rightarrow> (error + unit) \<times> StackConfig" where
  "merge_env self [] prefix = (Inr (), self)"
| "merge_env self ((key, value) # rest) prefix =
     (let prefixed_key = (if prefix \<noteq> '''' then prefix @ key else key) in
      case env_vars self prefixed_key of
        Some old \<Rightarrow>
          if old \<noteq> value
          then (Inl (MCPStackConfigError
                  (''Env conflict: '' @ prefixed_key @ '' ('' @ old @ '' vs '' @ value @ '')'')),
                self)
          else merge_env (self\<lparr>env_vars := (env_vars self)(prefixed_key \<mapsto> value)\<rparr>) rest prefix
      | None \<Rightarrow>
          merge_env (self\<lparr>env_vars := (env_vars self)(prefixed_key \<mapsto> value)\<rparr>) rest prefix)"

section \<open>Tools (\<^verbatim>\<open>core/tool/base.py\<close>)\<close>

text \<open>
  What a collaborator's method does when it is called: it returns, or it raises an
  \<^verbatim>\<open>Exception\<close> with the given text. (Signals outside the \<^verbatim>\<open>Exception\<close> hierarchy,
  such as an interrupt, are not part of the model.)
\<close>

datatype outcome = Returns | Raises string

text \<open>
  A backend is any object; \<^verbatim>\<open>hasattr(backend, "initialize")\<close> and
  \<^verbatim>\<open>hasattr(backend, "teardown")\<close> are the two attributes the code looks for, absent
  when \<open>None\<close>.
\<close>

record Backend =
  initialize_attr :: "outcome option"
  teardown_attr :: "outcome option"

text \<open>JSON values, for the parameter payload \<^verbatim>\<open>to_dict()\<close> of a tool.\<close>

datatype json =
    JNull
  | JBool bool
  | JNum int
  | JStr string
  | JList "json list"
  | JDict "(string \<times> json) list"

text \<open>
  A tool object: its class name, the two attributes \<^verbatim>\<open>BaseTool.__init__\<close> sets
  (absent, \<open>None\<close>, in a subclass that does not call it: the code reads them with
  \<^verbatim>\<open>getattr\<close>/\<^verbatim>\<open>hasattr\<close>), both dictionaries as their items in order, the names of
  the callables \<^verbatim>\<open>actions()\<close> returns, the payload \<^verbatim>\<open>to_dict()\<close> returns, and what the
  subclass hooks \<^verbatim>\<open>_initialize\<close> and \<^verbatim>\<open>_post_load\<close> do.
\<close>

record BaseTool =
  class_name :: string
  required_env_vars :: "(string \<times> string option) list option"
  backends :: "(string \<times> Backend) list option"
  actions :: "string list"
  to_dict :: json
  initialize_hook :: outcome
  post_load_hook :: outcome

text \<open>The calls made on collaborators, in the order they happen.\<close>

datatype event =
    BackendInitialize string string
  | ToolInitialize string
  | ToolPostLoad string
  | Serve nat
  | BackendTeardown string string

text \<open>
  \<^verbatim>\<open>BaseTool.initialize\<close>: every backend that has \<^verbatim>\<open>initialize\<close>, in order, then
  \<^verbatim>\<open>_initialize\<close>; the first raise ends it. The result is the outcome and the calls made.
\<close>

fun initialize_backends ::
  "string \<Rightarrow> (string \<times> Backend) list \<Rightarrow> (error + unit) \<times> event list" where
  "initialize_backends cls [] = (Inr (), [])"
| "initialize_backends cls ((name, backend) # rest) =
     (case initialize_attr backend of
        None \<Rightarrow> initialize_backends cls rest
      | Some Returns \<Rightarrow>
          (case initialize_backends cls rest of
             (r, evs) \<Rightarrow> (r, BackendInitialize cls name # evs))
      | Some (Raises m) \<Rightarrow> (Inl (PyException m), [BackendInitialize cls name]))"

definition initialize :: "BaseTool \<Rightarrow> (error + unit) \<times> event list" where
  "initialize tool =
     (case backends tool of
        None \<Rightarrow> (Inl (PyException ''AttributeError: backends''), [])
      | Some bs \<Rightarrow>
          (case initialize_backends (class_name tool) bs of
             (Inl e, evs) \<Rightarrow> (Inl e, evs)
           | (Inr u, evs) \<Rightarrow>
               (case initialize_hook tool of
                  Returns \<Rightarrow> (Inr (), evs @ [ToolInitialize (class_name tool)])
                | Raises m \<Rightarrow> (Inl (PyException m), evs @ [ToolInitialize (class_name tool)]))))"


section \<open>Validation of the configuration against the tools\<close>

text \<open>\<^verbatim>\<open>"\n".join(errors)\<close>.\<close>

fun join_lines :: "string list \<Rightarrow> string" where
  "join_lines [] = ''''"
| "join_lines [x] = x"
| "join_lines (x # y # rest) = x @ [CHR 0x0A] @ join_lines (y # rest)"

text \<open>
  The inner loop of \<^verbatim>\<open>validate_for_tools\<close> over one tool's \<^verbatim>\<open>required_env_vars\<close>, and the
  outer loop over the tools; \<open>errors\<close> is the list the code appends to.
\<close>

fun validate_tool ::
  "StackConfig \<Rightarrow> environ \<Rightarrow> string \<Rightarrow> (string \<times> string option) list \<Rightarrow> string list
     \<Rightarrow> string list" where
  "validate_tool self environ cls [] errors = errors"
| "validate_tool self environ cls ((req_key, req_default) # rest) errors =
     (case get_env_var self environ req_key req_default (req_default = None) of
        Inl e \<Rightarrow> validate_tool self environ cls rest (errors @ [cls @ '': '' @ str_error e])
      | Inr _ \<Rightarrow> validate_tool self environ cls rest errors)"

fun validate_loop ::
  "StackConfig \<Rightarrow> environ \<Rightarrow> BaseTool list \<Rightarrow> string list \<Rightarrow> string list" where
  "validate_loop self environ [] errors = errors"
| "validate_loop self environ (tool # rest) errors =
     validate_loop self environ rest
       (validate_tool self environ (class_name tool)
          (case required_env_vars tool of None \<Rightarrow> [] | Some reqs \<Rightarrow> reqs) errors)"

definition validate_for_tools :: "StackConfig \<Rightarrow> environ \<Rightarrow> BaseTool list \<Rightarrow> error + unit" where
  "validate_for_tools self environ tools =
     (let errors = validate_loop self environ tools []
      in if errors \<noteq> [] then Inl (MCPStackConfigError (join_lines errors)) else Inr ())"

section \<open>The pipeline and the objects it refers to (\<^verbatim>\<open>stack.py\<close>)\<close>

text \<open>
  Objects that are shared by reference live in a store and are named by their index:
  configurations, serving-runtime handles and pipelines. A new object gets the next free
  index. A pipeline's \<^verbatim>\<open>tools\<close> list is held by value: every assignment to it in the
  code builds a fresh list. \<^verbatim>\<open>_built\<close> is \<open>built\<close>.
\<close>

record FastMCP =
  mcp_name :: string
  registered :: "string list"

record MCPStackCore =
  config :: nat
  tools :: "BaseTool list"
  mcp :: "nat option"
  built :: bool

text \<open>
  The persisted document: \<^verbatim>\<open>{"config": {"log_level", "env_vars"}, "tools": [{"type",
  "params"}]}\<close>. The keys that \<^verbatim>\<open>load\<close> reads with \<^verbatim>\<open>.get\<close> and a default may be absent.
\<close>

record config_dict =
  cd_log_level :: "string option"
  cd_env_vars :: "(string \<rightharpoonup> string) option"

record document =
  doc_config :: config_dict
  doc_tools :: "(string \<times> json) list option"

record world =
  configs :: "StackConfig list"
  mcps :: "FastMCP list"
  stacks :: "MCPStackCore list"
  os_environ :: environ
  files :: "string \<rightharpoonup> document"
  trace :: "event list"

definition set_tools :: "nat \<Rightarrow> BaseTool list \<Rightarrow> world \<Rightarrow> world" where
  "set_tools self ts w = w\<lparr>stacks := (stacks w)[self := (stacks w ! self)\<lparr>tools := ts\<rparr>]\<rparr>"

definition set_mcp :: "nat \<Rightarrow> nat option \<Rightarrow> world \<Rightarrow> world" where
  "set_mcp self m w = w\<lparr>stacks := (stacks w)[self := (stacks w ! self)\<lparr>mcp := m\<rparr>]\<rparr>"

definition set_built :: "nat \<Rightarrow> bool \<Rightarrow> world \<Rightarrow> world" where
  "set_built self b w = w\<lparr>stacks := (stacks w)[self := (stacks w ! self)\<lparr>built := b\<rparr>]\<rparr>"

text \<open>
  \<^verbatim>\<open>StackConfig.__init__\<close>: \<^verbatim>\<open>_apply_config\<close> sets up logging, which may reject the level,
  then copies the overrides into the process environment. \<^verbatim>\<open>setup_logging\<close> (module
  \<^verbatim>\<open>core/utils/logging\<close>) is a parameter: whether it accepts a level.
\<close>

definition StackConfig_init ::
  "(string \<Rightarrow> bool) \<Rightarrow> string \<Rightarrow> (string \<rightharpoonup> string) option \<Rightarrow> world \<Rightarrow> (error + nat) \<times> world" where
  "StackConfig_init setup_logging lvl ev w =
     (let self = \<lparr>log_level = lvl, env_vars = (case ev of None \<Rightarrow> Map.empty | Some m \<Rightarrow> m)\<rparr>
      in if \<not> setup_logging lvl then (Inl (MCPStackConfigError ''Invalid log level''), w)
         else (Inr (length (configs w)),
               w\<lparr>configs := configs w @ [self], os_environ := os_environ w ++ env_vars self\<rparr>))"

definition StackConfig_to_dict :: "StackConfig \<Rightarrow> config_dict" where
  "StackConfig_to_dict self =
     \<lparr>cd_log_level = Some (log_level self), cd_env_vars = Some (env_vars self)\<rparr>"


text \<open>
  \<^verbatim>\<open>MCPStackCore.__init__\<close> with a configuration given (every call below gives one, so
  the default \<^verbatim>\<open>StackConfig()\<close> is never built here).
\<close>

definition MCPStackCore_init :: "nat \<Rightarrow> nat option \<Rightarrow> world \<Rightarrow> nat \<times> world" where
  "MCPStackCore_init config0 mcp0 w =
     (length (stacks w),
      w\<lparr>stacks := stacks w @ [\<lparr>config = config0, tools = [], mcp = mcp0, built = False\<rparr>]\<rparr>)"

definition with_tool :: "nat \<Rightarrow> BaseTool \<Rightarrow> world \<Rightarrow> nat \<times> world" where
  "with_tool self tool w =
     (case MCPStackCore_init (config (stacks w ! self)) (mcp (stacks w ! self)) w of
        (new, w1) \<Rightarrow> (new, set_tools new (tools (stacks w1 ! self) @ [tool]) w1))"

definition with_tools :: "nat \<Rightarrow> BaseTool list \<Rightarrow> world \<Rightarrow> nat \<times> world" where
  "with_tools self ts w =
     (case MCPStackCore_init (config (stacks w ! self)) (mcp (stacks w ! self)) w of
        (new, w1) \<Rightarrow> (new, set_tools new (tools (stacks w1 ! self) @ ts) w1))"

text \<open>
  The fuzzy matcher \<^verbatim>\<open>thefuzz.process.extractOne\<close> is a parameter: the best candidate
  and its score, or nothing. The suggestion text is the same in \<^verbatim>\<open>with_preset\<close> and in
  \<^verbatim>\<open>_generate_config\<close>.
\<close>

type_synonym extract_one = "string \<Rightarrow> string list \<Rightarrow> (string \<times> int) option"

definition suggestion :: "extract_one \<Rightarrow> string \<Rightarrow> string list \<Rightarrow> string" where
  "suggestion extractOne query available =
     (case extractOne query available of
        None \<Rightarrow> ''''
      | Some (best, score) \<Rightarrow>
          if score \<ge> 80 then '' Did you mean '' @ [CHR 0x27] @ best @ [CHR 0x27] @ ''?'' else '''')"

text \<open>
  A preset class is its \<^verbatim>\<open>create(config, **kwargs)\<close>: given a configuration or
  \<^verbatim>\<open>None\<close> and the other keyword arguments, it builds a pipeline and returns it, or
  raises. The preset registry \<^verbatim>\<open>ALL_PRESETS\<close> (module \<^verbatim>\<open>core/preset/registry\<close>) is a
  parameter, a dictionary given by its items. The keyword \<^verbatim>\<open>config\<close> of \<^verbatim>\<open>with_preset\<close>
  is \<open>None\<close> when not passed, \<open>Some None\<close> when passed as \<^verbatim>\<open>None\<close>.
\<close>

type_synonym kwargs = "(string \<times> json) list"

type_synonym preset = "nat option \<Rightarrow> kwargs \<Rightarrow> world \<Rightarrow> (error + nat) \<times> world"

definition with_preset ::
  "(string \<times> preset) list \<Rightarrow> extract_one \<Rightarrow> nat \<Rightarrow> string \<Rightarrow> nat option option \<Rightarrow> kwargs
     \<Rightarrow> world \<Rightarrow> (error + nat) \<times> world" where
  "with_preset ALL_PRESETS extractOne self preset_name config_kw kw w =
     (case map_of ALL_PRESETS preset_name of
        None \<Rightarrow>
          (Inl (MCPStackPresetError
                  (''Unknown preset: '' @ preset_name @ ''.''
                     @ suggestion extractOne preset_name (map fst ALL_PRESETS))),
           w)
      | Some preset_class \<Rightarrow>
          (let cfg = (case config_kw of None \<Rightarrow> Some (config (stacks w ! self)) | Some c \<Rightarrow> c)
           in case preset_class cfg kw w of
                (Inl e, w1) \<Rightarrow> (Inl e, w1)
              | (Inr preset_stack, w1) \<Rightarrow>
                  (let merged_tools = tools (stacks w1 ! self) @ tools (stacks w1 ! preset_stack)
                   in case MCPStackCore_init (config (stacks w1 ! preset_stack))
                             (case mcp (stacks w1 ! preset_stack) of
                                Some m \<Rightarrow> Some m
                              | None \<Rightarrow> mcp (stacks w1 ! self)) w1 of
                        (new, w2) \<Rightarrow> (Inr new, set_tools new merged_tools w2))))"

text \<open>
  \<^verbatim>\<open>ExamplePreset.create\<close>. The tool \<^verbatim>\<open>HelloWorld()\<close> (module \<^verbatim>\<open>tools/hello_world\<close>) is a
  parameter.
\<close>

definition ExamplePreset_create :: "(string \<Rightarrow> bool) \<Rightarrow> BaseTool \<Rightarrow> preset" where
  "ExamplePreset_create setup_logging HelloWorld cfg kw w =
     (case (case cfg of
              Some c \<Rightarrow> (Inr c, w)
            | None \<Rightarrow> StackConfig_init setup_logging ''INFO'' None w) of
        (Inl e, w1) \<Rightarrow> (Inl e, w1)
      | (Inr c, w1) \<Rightarrow>
          (case MCPStackCore_init c None w1 of
             (stack, w2) \<Rightarrow>
               (case with_tool stack HelloWorld w2 of (new, w3) \<Rightarrow> (Inr new, w3))))"

section \<open>Build, run, save and load\<close>

text \<open>
  The private methods lose their leading underscore: \<open>validate\<close> is \<^verbatim>\<open>_validate\<close>, and so
  on; the tool method \<^verbatim>\<open>post_load\<close> above and the pipeline method \<^verbatim>\<open>_post_load\<close> are
  \<open>post_load\<close> and \<open>stack_post_load\<close>.
\<close>

definition validate :: "nat \<Rightarrow> world \<Rightarrow> error + unit" where
  "validate self w =
     (if tools (stacks w ! self) = []
      then Inl (MCPStackValidationError ''At least one tool must be added.'')
      else validate_for_tools (configs w ! config (stacks w ! self)) (os_environ w)
             (tools (stacks w ! self)))"

definition initialize_mcp :: "nat \<Rightarrow> world \<Rightarrow> world" where
  "initialize_mcp self w =
     (case mcp (stacks w ! self) of
        Some m \<Rightarrow> w
      | None \<Rightarrow>
          set_mcp self (Some (length (mcps w)))
            (w\<lparr>mcps := mcps w @ [\<lparr>mcp_name = ''mcpstack'', registered = []\<rparr>]\<rparr>))"

fun initialize_loop :: "BaseTool list \<Rightarrow> (error + unit) \<times> event list" where
  "initialize_loop [] = (Inr (), [])"
| "initialize_loop (tool # rest) =
     (case initialize tool of
        (Inl e, evs) \<Rightarrow> (Inl e, evs)
      | (Inr u, evs) \<Rightarrow> (case initialize_loop rest of (r, evs') \<Rightarrow> (r, evs @ evs')))"

definition initialize_tools :: "nat \<Rightarrow> world \<Rightarrow> (error + unit) \<times> world" where
  "initialize_tools self w =
     (case initialize_loop (tools (stacks w ! self)) of
        (r, evs) \<Rightarrow> (r, w\<lparr>trace := trace w @ evs\<rparr>))"

text \<open>
  \<^verbatim>\<open>_register_actions\<close>: every action of every tool, in order, is registered with the
  handle; with no handle, \<^verbatim>\<open>self.mcp.tool()\<close> on \<^verbatim>\<open>None\<close> raises at the first action, if
  there is one.
\<close>

definition register_actions :: "nat \<Rightarrow> world \<Rightarrow> (error + unit) \<times> world" where
  "register_actions self w =
     (let acts = concat (map actions (tools (stacks w ! self)))
      in case mcp (stacks w ! self) of
           None \<Rightarrow> (if acts = [] then (Inr (), w) else (Inl (PyException ''AttributeError: tool''), w))
         | Some m \<Rightarrow>
             (Inr (),
              w\<lparr>mcps := (mcps w)[m := (mcps w ! m)\<lparr>registered := registered (mcps w ! m) @ acts\<rparr>]\<rparr>))"

text \<open>
  The keyword arguments of \<^verbatim>\<open>build\<close>, handed on to the generator. A generator class is
  its \<^verbatim>\<open>generate(stack, **kwargs)\<close>: it returns an artifact or raises, and may write
  files. The generator registry \<^verbatim>\<open>ALL_MCP_CONFIG_GENERATORS\<close> (module
  \<^verbatim>\<open>core/mcp_config_generator/registry\<close>) is a parameter, a dictionary given by its items.
\<close>

record build_kwargs =
  kw_command :: "string option"
  kw_args :: "string list option"
  kw_cwd :: "string option"
  kw_module_name :: "string option"
  kw_pipeline_config_path :: "string option"
  kw_save_path :: "string option"

type_synonym generator = "nat \<Rightarrow> build_kwargs \<Rightarrow> world \<Rightarrow> (error + json) \<times> world"

definition generate_config ::
  "(string \<times> generator) list \<Rightarrow> extract_one \<Rightarrow> nat \<Rightarrow> string \<Rightarrow> build_kwargs \<Rightarrow> world
     \<Rightarrow> (error + json) \<times> world" where
  "generate_config generators extractOne self type kw w =
     (case map_of generators type of
        None \<Rightarrow>
          (Inl (MCPStackValidationError
                  (''Unknown config type: '' @ type @ ''.''
                     @ suggestion extractOne type (map fst generators))),
           w)
      | Some generator_class \<Rightarrow> generator_class self kw w)"

definition build ::
  "(string \<times> generator) list \<Rightarrow> extract_one \<Rightarrow> nat \<Rightarrow> string \<Rightarrow> build_kwargs \<Rightarrow> world
     \<Rightarrow> (error + json) \<times> world" where
  "build generators extractOne self type kw w =
     (case validate self w of
        Inl e \<Rightarrow> (Inl e, w)
      | Inr u \<Rightarrow>
          (let w1 = initialize_mcp self w
           in case initialize_tools self w1 of
                (Inl e, w2) \<Rightarrow> (Inl e, w2)
              | (Inr u, w2) \<Rightarrow>
                  (case register_actions self w2 of
                     (Inl e, w3) \<Rightarrow> (Inl e, w3)
                   | (Inr u, w3) \<Rightarrow>
                       generate_config generators extractOne self type kw
                         (set_built self True w3))))"

text \<open>
  \<^verbatim>\<open>_teardown_tools\<close>: for every tool that has \<^verbatim>\<open>backends\<close>, for every backend, the body of
  the \<^verbatim>\<open>try\<close> calls \<^verbatim>\<open>teardown\<close> when the backend has it; \<^verbatim>\<open>except Exception: pass\<close> drops a
  raise and the loop goes on.
\<close>

definition teardown_backend :: "string \<Rightarrow> string \<Rightarrow> Backend \<Rightarrow> (error + unit) \<times> event list" where
  "teardown_backend cls name backend =
     (case teardown_attr backend of
        None \<Rightarrow> (Inr (), [])
      | Some Returns \<Rightarrow> (Inr (), [BackendTeardown cls name])
      | Some (Raises m) \<Rightarrow> (Inl (PyException m), [BackendTeardown cls name]))"

fun teardown_backends :: "string \<Rightarrow> (string \<times> Backend) list \<Rightarrow> event list" where
  "teardown_backends cls [] = []"
| "teardown_backends cls ((name, backend) # rest) =
     (case teardown_backend cls name backend of
        (Inl e, evs) \<Rightarrow> evs @ teardown_backends cls rest
      | (Inr u, evs) \<Rightarrow> evs @ teardown_backends cls rest)"

fun teardown_loop :: "BaseTool list \<Rightarrow> event list" where
  "teardown_loop [] = []"
| "teardown_loop (tool # rest) =
     (case backends tool of
        None \<Rightarrow> teardown_loop rest
      | Some bs \<Rightarrow> teardown_backends (class_name tool) bs @ teardown_loop rest)"

definition teardown_tools :: "nat \<Rightarrow> world \<Rightarrow> world" where
  "teardown_tools self w = w\<lparr>trace := trace w @ teardown_loop (tools (stacks w ! self))\<rparr>"

text \<open>
  \<^verbatim>\<open>run\<close>. What the blocking call \<^verbatim>\<open>self.mcp.run()\<close> of the serving runtime does is the
  parameter \<open>mcp_run\<close>; the \<^verbatim>\<open>finally\<close> block runs after it in both cases.
\<close>

definition run :: "outcome \<Rightarrow> nat \<Rightarrow> world \<Rightarrow> (error + unit) \<times> world" where
  "run mcp_run self w =
     (if \<not> built (stacks w ! self)
      then (Inl (MCPStackBuildError ''Call .build() before .run()''), w)
      else case mcp (stacks w ! self) of
             None \<Rightarrow> (Inl (MCPStackInitializationError ''MCP not initialized''), w)
           | Some m \<Rightarrow>
               (let w1 = w\<lparr>trace := trace w @ [Serve m]\<rparr>;
                    r = (case mcp_run of Returns \<Rightarrow> Inr () | Raises msg \<Rightarrow> Inl (PyException msg))
                in (r, teardown_tools self w1)))"

text \<open>
  \<^verbatim>\<open>to_snake_case\<close>: the regular expression \<^verbatim>\<open>(?<!^)(?=[A-Z])\<close> matches before every
  capital letter except at the start of the name; \<^verbatim>\<open>lower()\<close> is taken on ASCII letters.
\<close>

definition is_upper :: "char \<Rightarrow> bool" where
  "is_upper c = (65 \<le> (of_char c :: nat) \<and> (of_char c :: nat) \<le> 90)"

definition lower_char :: "char \<Rightarrow> char" where
  "lower_char c = (if is_upper c then char_of ((of_char c :: nat) + 32) else c)"

fun underscore_capitals :: "string \<Rightarrow> string" where
  "underscore_capitals [] = []"
| "underscore_capitals (c # cs) =
     (if is_upper c then CHR ''_'' # c # underscore_capitals cs else c # underscore_capitals cs)"

definition to_snake_case :: "string \<Rightarrow> string" where
  "to_snake_case nm =
     (case nm of [] \<Rightarrow> [] | c # cs \<Rightarrow> map lower_char (c # underscore_capitals cs))"

definition save :: "nat \<Rightarrow> string \<Rightarrow> world \<Rightarrow> (error + unit) \<times> world" where
  "save self path w =
     (if \<not> built (stacks w ! self)
      then (Inl (MCPStackBuildError ''Call .build() before .save()''), w)
      else (let data = \<lparr>doc_config = StackConfig_to_dict (configs w ! config (stacks w ! self)),
                         doc_tools = Some (map (\<lambda>tool. (to_snake_case (class_name tool), to_dict tool))
                                             (tools (stacks w ! self)))\<rparr>
            in (Inr (), w\<lparr>files := (files w)(path \<mapsto> data)\<rparr>)))"






text \<open>A name occurs in a message when it is a contiguous part of it.\<close>

fun occurs_in :: "string \<Rightarrow> string \<Rightarrow> bool" where
  "occurs_in nm [] = (nm = [])"
| "occurs_in nm (c # cs) = (take (length nm) (c # cs) = nm \<or> occurs_in nm cs)"

section \<open>Example values\<close>

text \<open>
  Concrete inputs for the worked examples that follow the theorems. Two tools without
  backends:
\<close>

definition alpha_tool :: BaseTool where
  "alpha_tool =
     \<lparr>class_name = ''Alpha'',
      required_env_vars = Some [(''A_KEY'', None), (''A_URL'', Some ''http://a'')],
      backends = Some [], actions = [''alpha_query''], to_dict = JDict [(''n'', JNum 1)],
      initialize_hook = Returns, post_load_hook = Returns\<rparr>"

definition beta_tool :: BaseTool where
  "beta_tool =
     \<lparr>class_name = ''Beta'',
      required_env_vars = Some [(''B_KEY'', None), (''B_TOKEN'', None)],
      backends = Some [], actions = [''beta_query''], to_dict = JDict [],
      initialize_hook = Returns, post_load_hook = Returns\<rparr>"

text \<open>
  Stand-ins for the collaborators taken as parameters: a logging setup that accepts every
  level, a matcher that returns the first candidate with score 0 and one that returns it
  with score 90, and a generator that returns an empty server table.
\<close>

definition any_level :: "string \<Rightarrow> bool" where
  "any_level lvl = True"

definition weak_match :: extract_one where
  "weak_match query choices = (case choices of [] \<Rightarrow> None | c # _ \<Rightarrow> Some (c, 0))"

definition strong_match :: extract_one where
  "strong_match query choices = (case choices of [] \<Rightarrow> None | c # _ \<Rightarrow> Some (c, 90))"

definition empty_generator :: generator where
  "empty_generator self kw w = (Inr (JDict [(''mcpServers'', JDict [])]), w)"

text \<open>
  A store with two configurations and one empty, unbuilt pipeline on the first of them.
\<close>

definition example_world :: world where
  "example_world =
     \<lparr>configs = [\<lparr>log_level = ''INFO'', env_vars = Map.empty\<rparr>,
                 \<lparr>log_level = ''DEBUG'', env_vars = [''API_KEY'' \<mapsto> ''secret'']\<rparr>],
      mcps = [],
      stacks = [\<lparr>config = 0, tools = [], mcp = None, built = False\<rparr>],
      os_environ = Map.empty,
      files = Map.empty,
      trace = []\<rparr>"

text \<open>
  A store with one unbuilt pipeline holding \<open>alpha_tool\<close>, whose required variable is in
  the overrides of its configuration, and the same store with that pipeline marked built;
  the keyword arguments of a \<^verbatim>\<open>build()\<close> call with none given.
\<close>

definition alpha_world :: world where
  "alpha_world =
     \<lparr>configs = [\<lparr>log_level = ''INFO'', env_vars = [''A_KEY'' \<mapsto> ''secret'']\<rparr>],
      mcps = [],
      stacks = [\<lparr>config = 0, tools = [alpha_tool], mcp = None, built = False\<rparr>],
      os_environ = Map.empty,
      files = Map.empty,
      trace = []\<rparr>"

definition no_kwargs :: build_kwargs where
  "no_kwargs =
     \<lparr>kw_command = None, kw_args = None, kw_cwd = None, kw_module_name = None,
      kw_pipeline_config_path = None, kw_save_path = None\<rparr>"

text \<open>
  Two tools with backends: the first has one whose \<^verbatim>\<open>teardown\<close> raises and one without
  \<^verbatim>\<open>teardown\<close>, the second has one whose \<^verbatim>\<open>teardown\<close> returns; and a store with a built
  pipeline holding both, with a serving-runtime handle.
\<close>

definition gamma_tool :: BaseTool where
  "gamma_tool =
     \<lparr>class_name = ''Gamma'', required_env_vars = Some [],
      backends = Some [(''db'', \<lparr>initialize_attr = Some Returns,
                                  teardown_attr = Some (Raises ''connection lost'')\<rparr>),
                       (''plain'', \<lparr>initialize_attr = None, teardown_attr = None\<rparr>)],
      actions = [''gamma_query''], to_dict = JDict [],
      initialize_hook = Returns, post_load_hook = Returns\<rparr>"

definition delta_tool :: BaseTool where
  "delta_tool =
     \<lparr>class_name = ''Delta'', required_env_vars = Some [],
      backends = Some [(''cache'', \<lparr>initialize_attr = None, teardown_attr = Some Returns\<rparr>)],
      actions = [''delta_query''], to_dict = JDict [],
      initialize_hook = Returns, post_load_hook = Returns\<rparr>"

definition serving_world :: world where
  "serving_world =
     \<lparr>configs = [\<lparr>log_level = ''INFO'', env_vars = Map.empty\<rparr>],
      mcps = [\<lparr>mcp_name = ''mcpstack'', registered = [''gamma_query'', ''delta_query'']\<rparr>],
      stacks = [\<lparr>config = 0, tools = [gamma_tool, delta_tool], mcp = Some 0, built = True\<rparr>],
      os_environ = Map.empty,
      files = Map.empty,
      trace = []\<rparr>"





section \<open>Properties of the configuration\<close>

text \<open>
  C7. \<^verbatim>\<open>get_env_var\<close> resolves a key in the override map first, then in the process
  environment, then takes the default; it raises a configuration error exactly when
  \<^verbatim>\<open>raise_if_missing\<close> is set and none of the three gave a value; unset and not
  required, the result is the empty string (the result is always a string).
\<close>

theorem get_env_var_resolution:
  "(env_vars self key = Some v \<longrightarrow> get_env_var self environ key dflt req = Inr v)
   \<and> (env_vars self key = None \<and> environ key = Some v
        \<longrightarrow> get_env_var self environ key dflt req = Inr v)
   \<and> (env_vars self key = None \<and> environ key = None \<and> dflt = Some v
        \<longrightarrow> get_env_var self environ key dflt req = Inr v)
   \<and> ((\<exists>e. get_env_var self environ key dflt req = Inl e)
        \<longleftrightarrow> (req \<and> env_vars self key = None \<and> environ key = None \<and> dflt = None))
   \<and> (get_env_var self environ key dflt req
        = Inl (MCPStackConfigError (''Missing required env var: '' @ key))
        \<or> (\<exists>s. get_env_var self environ key dflt req = Inr s))
   \<and> (env_vars self key = None \<and> environ key = None \<and> dflt = None \<and> \<not> req
        \<longrightarrow> get_env_var self environ key dflt req = Inr '''')"
  by (auto simp: get_env_var_def or_empty_def Let_def split: option.splits)

theorem get_env_var_resolution_witness:
  "get_env_var \<lparr>log_level = ''INFO'', env_vars = [''API_KEY'' \<mapsto> ''secret'']\<rparr>
       [''API_KEY'' \<mapsto> ''other''] ''API_KEY'' (Some ''dflt'') True = Inr ''secret''
   \<and> get_env_var \<lparr>log_level = ''INFO'', env_vars = Map.empty\<rparr>
       [''API_KEY'' \<mapsto> ''other''] ''API_KEY'' (Some ''dflt'') True = Inr ''other''
   \<and> get_env_var \<lparr>log_level = ''INFO'', env_vars = Map.empty\<rparr>
       Map.empty ''API_KEY'' (Some ''dflt'') True = Inr ''dflt''
   \<and> (\<exists>e. get_env_var \<lparr>log_level = ''INFO'', env_vars = Map.empty\<rparr>
       Map.empty ''API_KEY'' None True = Inl e)
   \<and> get_env_var \<lparr>log_level = ''INFO'', env_vars = Map.empty\<rparr>
       Map.empty ''API_KEY'' None False = Inr ''''"
  using get_env_var_resolution
          [of "\<lparr>log_level = ''INFO'', env_vars = [''API_KEY'' \<mapsto> ''secret'']\<rparr>"
              "''API_KEY''" "''secret''" "[''API_KEY'' \<mapsto> ''other'']" "Some ''dflt''" True]
        get_env_var_resolution
          [of "\<lparr>log_level = ''INFO'', env_vars = Map.empty\<rparr>"
              "''API_KEY''" "''other''" "[''API_KEY'' \<mapsto> ''other'']" "Some ''dflt''" True]
        get_env_var_resolution
          [of "\<lparr>log_level = ''INFO'', env_vars = Map.empty\<rparr>"
              "''API_KEY''" "''dflt''" "Map.empty" "Some ''dflt''" True]
        get_env_var_resolution
          [of "\<lparr>log_level = ''INFO'', env_vars = Map.empty\<rparr>"
              "''API_KEY''" "''x''" "Map.empty" "None" True]
        get_env_var_resolution
          [of "\<lparr>log_level = ''INFO'', env_vars = Map.empty\<rparr>"
              "''API_KEY''" "''x''" "Map.empty" "None" False]
  by simp

lemma merge_env_Cons:
  "merge_env self ((key, val) # rest) prefix =
     (case env_vars self (prefix @ key) of
        Some old \<Rightarrow>
          if old \<noteq> val
          then (Inl (MCPStackConfigError
                  (''Env conflict: '' @ (prefix @ key) @ '' ('' @ old @ '' vs '' @ val @ '')'')),
                self)
          else merge_env (self\<lparr>env_vars := (env_vars self)(prefix @ key \<mapsto> val)\<rparr>) rest prefix
      | None \<Rightarrow>
          merge_env (self\<lparr>env_vars := (env_vars self)(prefix @ key \<mapsto> val)\<rparr>) rest prefix)"
  by (cases "prefix = ''''") (auto simp: Let_def split: option.splits)

lemma merge_env_fail:
  "fst (merge_env self new_env prefix) = Inl e \<Longrightarrow> distinct (map fst new_env) \<Longrightarrow>
   \<exists>k v old. (k, v) \<in> set new_env \<and> env_vars self (prefix @ k) = Some old \<and> old \<noteq> v
     \<and> e = MCPStackConfigError (''Env conflict: '' @ (prefix @ k) @ '' ('' @ old @ '' vs '' @ v @ '')'')"
proof (induction new_env arbitrary: self)
  case Nil
  then show ?case by simp
next
  case (Cons entry rest)
  obtain key val where entry: "entry = (key, val)" by (cases entry)
  let ?pk = "prefix @ key"
  let ?self' = "self\<lparr>env_vars := (env_vars self)(?pk \<mapsto> val)\<rparr>"
  show ?case
  proof (cases "\<exists>old. env_vars self ?pk = Some old \<and> old \<noteq> val")
    case True
    then obtain old where o: "env_vars self ?pk = Some old" "old \<noteq> val" by blast
    with Cons.prems have "e = MCPStackConfigError (''Env conflict: '' @ ?pk @ '' ('' @ old @ '' vs '' @ val @ '')'')"
      by (simp add: entry merge_env_Cons del: merge_env.simps(2))
    with o show ?thesis unfolding entry by (intro exI[of _ key] exI[of _ val] exI[of _ old]) simp
  next
    case False
    then have step: "merge_env self ((key, val) # rest) prefix = merge_env ?self' rest prefix"
      by (auto simp: merge_env_Cons simp del: merge_env.simps(2) split: option.splits)
    have d: "distinct (map fst rest)" "key \<notin> fst ` set rest" using Cons.prems by (auto simp: entry)
    from step Cons.prems have f: "fst (merge_env ?self' rest prefix) = Inl e" by (simp add: entry del: merge_env.simps(2))
    from Cons.IH[OF f d(1)]
    obtain k v old where kv: "(k, v) \<in> set rest" "env_vars ?self' (prefix @ k) = Some old" "old \<noteq> v"
      "e = MCPStackConfigError (''Env conflict: '' @ (prefix @ k) @ '' ('' @ old @ '' vs '' @ v @ '')'')" by blast
    from kv(1) d(2) have "k \<noteq> key" by force
    with kv(2) have "env_vars self (prefix @ k) = Some old" by simp
    with kv show ?thesis unfolding entry by (intro exI[of _ k] exI[of _ v] exI[of _ old]) simp
  qed
qed

lemma merge_env_ok:
  "fst (merge_env self new_env prefix) = Inr u \<Longrightarrow>
   (\<forall>(k, v) \<in> set new_env. env_vars self (prefix @ k) = None \<or> env_vars self (prefix @ k) = Some v)
   \<and> (\<forall>(k, v) \<in> set new_env. env_vars (snd (merge_env self new_env prefix)) (prefix @ k) = Some v)
   \<and> (\<forall>x. x \<notin> (\<lambda>(k, v). prefix @ k) ` set new_env \<longrightarrow> env_vars (snd (merge_env self new_env prefix)) x = env_vars self x)
   \<and> log_level (snd (merge_env self new_env prefix)) = log_level self"
proof (induction new_env arbitrary: self)
  case Nil
  then show ?case by simp
next
  case (Cons entry rest)
  obtain key val where entry: "entry = (key, val)" by (cases entry)
  let ?pk = "prefix @ key"
  let ?self' = "self\<lparr>env_vars := (env_vars self)(?pk \<mapsto> val)\<rparr>"
  from Cons.prems have ok: "env_vars self ?pk = None \<or> env_vars self ?pk = Some val"
    by (auto simp: entry merge_env_Cons simp del: merge_env.simps(2) split: option.splits if_splits)
  then have step: "merge_env self (entry # rest) prefix = merge_env ?self' rest prefix"
    by (auto simp: entry merge_env_Cons simp del: merge_env.simps(2) split: option.splits)
  with Cons.prems have f: "fst (merge_env ?self' rest prefix) = Inr u" by simp
  note IH = Cons.IH[OF f]
  have a: "\<forall>(k, v) \<in> set rest. env_vars self (prefix @ k) = None \<or> env_vars self (prefix @ k) = Some v"
  proof safe
    fix k v assume kv: "(k, v) \<in> set rest" "env_vars self (prefix @ k) \<noteq> Some v"
    with IH have "env_vars ?self' (prefix @ k) = None \<or> env_vars ?self' (prefix @ k) = Some v" by blast
    with kv(2) ok show "env_vars self (prefix @ k) = None" by (auto split: if_splits)
  qed
  have b: "env_vars (snd (merge_env ?self' rest prefix)) ?pk = Some val"
  proof (cases "?pk \<in> (\<lambda>(k, v). prefix @ k) ` set rest")
    case True
    then obtain v where kv: "(key, v) \<in> set rest" by auto
    with IH have "env_vars ?self' ?pk = None \<or> env_vars ?self' ?pk = Some v"
      and "env_vars (snd (merge_env ?self' rest prefix)) ?pk = Some v" by blast+
    then show ?thesis by auto
  next
    case False
    with IH have "env_vars (snd (merge_env ?self' rest prefix)) ?pk = env_vars ?self' ?pk" by blast
    then show ?thesis by simp
  qed
  show ?case unfolding step using ok a b IH by (auto simp: entry)
qed

lemma merge_env_conflict:
  "(k, v) \<in> set new_env \<Longrightarrow> env_vars self (prefix @ k) = Some old \<Longrightarrow> old \<noteq> v
   \<Longrightarrow> \<exists>e. fst (merge_env self new_env prefix) = Inl e"
  using merge_env_ok[of self new_env prefix "()"]
  by (cases "fst (merge_env self new_env prefix)") auto

lemma merge_env_present:
  "\<forall>(k, v) \<in> set new_env. env_vars self (prefix @ k) = Some v
   \<Longrightarrow> merge_env self new_env prefix = (Inr (), self)"
proof (induction new_env)
  case Nil
  then show ?case by simp
next
  case (Cons entry rest)
  obtain key val where entry: "entry = (key, val)" by (cases entry)
  from Cons.prems have p: "env_vars self (prefix @ key) = Some val" by (simp add: entry)
  then have "self\<lparr>env_vars := (env_vars self)(prefix @ key \<mapsto> val)\<rparr> = self"
    by (simp add: map_upd_triv)
  with p Cons show ?case
    by (simp add: entry merge_env_Cons del: merge_env.simps(2))
qed

lemma merge_env_idem:
  "fst (merge_env self new_env prefix) = Inr u \<Longrightarrow> 
   merge_env (snd (merge_env self new_env prefix)) new_env prefix = (Inr (), snd (merge_env self new_env prefix))"
  using merge_env_ok[of self new_env prefix u] by (intro merge_env_present) blast
text \<open>
  C8. \<^verbatim>\<open>merge_env\<close> works on the prefixed key of every entry. It raises a configuration
  error exactly when some entry's prefixed key is already present with a different value,
  and the message names the key and both values; otherwise every entry's prefixed key
  holds the entry's value afterwards (a key present with the same value is accepted, a
  new key is set), other keys are untouched, and merging the same map again succeeds and
  changes nothing.
\<close>

theorem merge_env_conflicts:
  assumes "distinct (map fst new_env)"
  shows "((\<exists>e. fst (merge_env self new_env prefix) = Inl e)
            \<longleftrightarrow> (\<exists>(k, v) \<in> set new_env. \<exists>old. env_vars self (prefix @ k) = Some old \<and> old \<noteq> v))
       \<and> (\<forall>e. fst (merge_env self new_env prefix) = Inl e \<longrightarrow>
             (\<exists>k v old. (k, v) \<in> set new_env \<and> env_vars self (prefix @ k) = Some old \<and> old \<noteq> v
                \<and> e = MCPStackConfigError
                        (''Env conflict: '' @ (prefix @ k) @ '' ('' @ old @ '' vs '' @ v @ '')'')))
       \<and> (fst (merge_env self new_env prefix) = Inr () \<longrightarrow>
             (\<forall>(k, v) \<in> set new_env.
                 env_vars (snd (merge_env self new_env prefix)) (prefix @ k) = Some v)
             \<and> (\<forall>x. x \<notin> (\<lambda>(k, v). prefix @ k) ` set new_env \<longrightarrow>
                   env_vars (snd (merge_env self new_env prefix)) x = env_vars self x)
             \<and> merge_env (snd (merge_env self new_env prefix)) new_env prefix
                 = (Inr (), snd (merge_env self new_env prefix)))"
proof -
  have fail: "\<exists>k v old. (k, v) \<in> set new_env \<and> env_vars self (prefix @ k) = Some old \<and> old \<noteq> v
                \<and> e = MCPStackConfigError
                        (''Env conflict: '' @ (prefix @ k) @ '' ('' @ old @ '' vs '' @ v @ '')'')"
    if "fst (merge_env self new_env prefix) = Inl e" for e
    using merge_env_fail[OF that assms] .
  have iff: "(\<exists>e. fst (merge_env self new_env prefix) = Inl e)
            \<longleftrightarrow> (\<exists>(k, v) \<in> set new_env. \<exists>old. env_vars self (prefix @ k) = Some old \<and> old \<noteq> v)"
  proof
    assume "\<exists>e. fst (merge_env self new_env prefix) = Inl e"
    then obtain e where "fst (merge_env self new_env prefix) = Inl e" ..
    from fail[OF this]
    show "\<exists>(k, v) \<in> set new_env. \<exists>old. env_vars self (prefix @ k) = Some old \<and> old \<noteq> v"
      by blast
  next
    assume "\<exists>(k, v) \<in> set new_env. \<exists>old. env_vars self (prefix @ k) = Some old \<and> old \<noteq> v"
    then show "\<exists>e. fst (merge_env self new_env prefix) = Inl e"
      using merge_env_conflict by blast
  qed
  have ok: "(\<forall>(k, v) \<in> set new_env.
                 env_vars (snd (merge_env self new_env prefix)) (prefix @ k) = Some v)
             \<and> (\<forall>x. x \<notin> (\<lambda>(k, v). prefix @ k) ` set new_env \<longrightarrow>
                   env_vars (snd (merge_env self new_env prefix)) x = env_vars self x)
             \<and> merge_env (snd (merge_env self new_env prefix)) new_env prefix
                 = (Inr (), snd (merge_env self new_env prefix))"
    if "fst (merge_env self new_env prefix) = Inr ()"
    using merge_env_ok[OF that] merge_env_idem[OF that] by blast
  from fail iff ok show ?thesis by blast
qed

theorem merge_env_conflicts_witness:
  "distinct (map fst [(''K'', ''b'')])
   \<and> fst (merge_env \<lparr>log_level = ''INFO'', env_vars = Map.empty\<rparr> [(''K'', ''a'')] '''') = Inr ()
   \<and> env_vars (snd (merge_env \<lparr>log_level = ''INFO'', env_vars = Map.empty\<rparr> [(''K'', ''a'')] ''''))
        ''K'' = Some ''a''
   \<and> fst (merge_env (snd (merge_env \<lparr>log_level = ''INFO'', env_vars = Map.empty\<rparr> [(''K'', ''a'')] ''''))
              [(''K'', ''b'')] '''')
       = Inl (MCPStackConfigError ''Env conflict: K (a vs b)'')
   \<and> fst (merge_env (snd (merge_env \<lparr>log_level = ''INFO'', env_vars = Map.empty\<rparr> [(''K'', ''a'')] ''''))
              [(''K'', ''a'')] '''')
       = Inr ()"
  using merge_env_conflicts
          [of "[(''K'', ''b'')]"
              "snd (merge_env \<lparr>log_level = ''INFO'', env_vars = Map.empty\<rparr> [(''K'', ''a'')] '''')" "''''"]
        merge_env_conflicts
          [of "[(''K'', ''a'')]" "\<lparr>log_level = ''INFO'', env_vars = Map.empty\<rparr>" "''''"]
  by simp

lemma validate_tool_eq:
  "validate_tool self environ cls reqs errors =
     errors @ [cls @ '': MCPStack Error: Missing required env var: '' @ k.
                 (k, d) \<leftarrow> reqs, d = None \<and> env_vars self k = None \<and> environ k = None]"
proof (induction reqs arbitrary: errors)
  case Nil
  then show ?case by simp
next
  case (Cons r reqs)
  obtain k d where r: "r = (k, d)" by (cases r)
  show ?case
    by (simp add: r Cons get_env_var_def Let_def split: option.splits)
qed

lemma validate_loop_eq:
  "validate_loop self environ ts errors =
     errors @ [class_name t @ '': MCPStack Error: Missing required env var: '' @ k.
                 t \<leftarrow> ts,
                 (k, d) \<leftarrow> (case required_env_vars t of None \<Rightarrow> [] | Some reqs \<Rightarrow> reqs),
                 d = None \<and> env_vars self k = None \<and> environ k = None]"
  by (induction ts arbitrary: errors) (simp_all add: validate_tool_eq)


text \<open>
  C6. \<^verbatim>\<open>validate_for_tools\<close> goes through every tool and every variable the tool
  declares, a variable being required exactly when its declared default is absent; the
  failures are all the (tool, variable) pairs whose variable is required and found neither
  in the override map nor in the process environment. With no such pair nothing is
  raised; otherwise one configuration error is raised whose message has one line per
  pair, over all tools, in order.
\<close>

theorem validate_for_tools_aggregates:
  "validate_for_tools self environ ts =
     (let missing = [(class_name t, k).
                       t \<leftarrow> ts,
                       (k, d) \<leftarrow> (case required_env_vars t of None \<Rightarrow> [] | Some reqs \<Rightarrow> reqs),
                       d = None \<and> env_vars self k = None \<and> environ k = None]
      in if missing = [] then Inr ()
         else Inl (MCPStackConfigError
                (join_lines
                   (map (\<lambda>(c, k). c @ '': MCPStack Error: Missing required env var: '' @ k)
                      missing))))"
proof -
  have "[class_name t @ '': MCPStack Error: Missing required env var: '' @ k.
                 t \<leftarrow> ts,
                 (k, d) \<leftarrow> (case required_env_vars t of None \<Rightarrow> [] | Some reqs \<Rightarrow> reqs),
                 d = None \<and> env_vars self k = None \<and> environ k = None]
        = map (\<lambda>(c, k). c @ '': MCPStack Error: Missing required env var: '' @ k)
            [(class_name t, k).
                       t \<leftarrow> ts,
                       (k, d) \<leftarrow> (case required_env_vars t of None \<Rightarrow> [] | Some reqs \<Rightarrow> reqs),
                       d = None \<and> env_vars self k = None \<and> environ k = None]"
    by (induction ts) (simp_all add: map_concat comp_def split_def if_distrib cong: if_cong)
  then show ?thesis
    by (simp add: validate_for_tools_def validate_loop_eq Let_def)
qed

theorem validate_for_tools_aggregates_witness:
  "validate_for_tools \<lparr>log_level = ''INFO'', env_vars = [''B_TOKEN'' \<mapsto> ''x'']\<rparr> Map.empty
      [alpha_tool, beta_tool]
   = Inl (MCPStackConfigError
       (''Alpha: MCPStack Error: Missing required env var: A_KEY'' @ [CHR 0x0A]
        @ ''Beta: MCPStack Error: Missing required env var: B_KEY''))
   \<and> validate_for_tools
        \<lparr>log_level = ''INFO'', env_vars = [''B_TOKEN'' \<mapsto> ''x'', ''A_KEY'' \<mapsto> ''k'']\<rparr>
        [''B_KEY'' \<mapsto> ''from environ''] [alpha_tool, beta_tool]
     = Inr ()"
  using validate_for_tools_aggregates
          [of "\<lparr>log_level = ''INFO'', env_vars = [''B_TOKEN'' \<mapsto> ''x'']\<rparr>" Map.empty
              "[alpha_tool, beta_tool]"]
        validate_for_tools_aggregates
          [of "\<lparr>log_level = ''INFO'', env_vars = [''B_TOKEN'' \<mapsto> ''x'', ''A_KEY'' \<mapsto> ''k'']\<rparr>"
              "[''B_KEY'' \<mapsto> ''from environ'']" "[alpha_tool, beta_tool]"]
  by (simp add: alpha_tool_def beta_tool_def)

section \<open>Properties of the pipeline\<close>

subsection \<open>Appending tools and presets\<close>

lemma MCPStackCore_init_eq:
  "MCPStackCore_init c m w =
     (length (stacks w), w\<lparr>stacks := stacks w @ [\<lparr>config = c, tools = [], mcp = m, built = False\<rparr>]\<rparr>)"
  by (simp add: MCPStackCore_init_def)

lemma with_tools_eq:
  "self < length (stacks w) \<Longrightarrow>
   with_tools self ts w =
     (length (stacks w),
      w\<lparr>stacks := stacks w @ [\<lparr>config = config (stacks w ! self), tools = tools (stacks w ! self) @ ts,
                                mcp = mcp (stacks w ! self), built = False\<rparr>]\<rparr>)"
  by (simp add: with_tools_def MCPStackCore_init_def set_tools_def nth_append)

lemma with_tool_eq:
  "self < length (stacks w) \<Longrightarrow>
   with_tool self tool w =
     (length (stacks w),
      w\<lparr>stacks := stacks w @ [\<lparr>config = config (stacks w ! self), tools = tools (stacks w ! self) @ [tool],
                                mcp = mcp (stacks w ! self), built = False\<rparr>]\<rparr>)"
  by (simp add: with_tool_def MCPStackCore_init_def set_tools_def nth_append)

lemma with_preset_found:
  assumes "map_of ALL_PRESETS preset_name = Some preset_class"
    and "preset_class (case config_kw of None \<Rightarrow> Some (config (stacks w ! self)) | Some c \<Rightarrow> c) kw w
           = (Inr ps, w1)"
    and "self < length (stacks w1)" "ps < length (stacks w1)"
  shows "with_preset ALL_PRESETS extractOne self preset_name config_kw kw w =
     (Inr (length (stacks w1)),
      w1\<lparr>stacks := stacks w1 @
           [\<lparr>config = config (stacks w1 ! ps),
             tools = tools (stacks w1 ! self) @ tools (stacks w1 ! ps),
             mcp = (case mcp (stacks w1 ! ps) of Some m \<Rightarrow> Some m | None \<Rightarrow> mcp (stacks w1 ! self)),
             built = False\<rparr>]\<rparr>)"
  using assms
  by (simp add: with_preset_def MCPStackCore_init_def set_tools_def nth_append Let_def)

lemma ExamplePreset_create_Some:
  "ExamplePreset_create sl hw (Some c) kw w =
     (Inr (Suc (length (stacks w))),
      w\<lparr>stacks := stacks w @ [\<lparr>config = c, tools = [], mcp = None, built = False\<rparr>,
                               \<lparr>config = c, tools = [hw], mcp = None, built = False\<rparr>]\<rparr>)"
  by (simp add: ExamplePreset_create_def MCPStackCore_init_def with_tool_def set_tools_def nth_append)

text \<open>
  C1, as the code has it. On a pipeline of the store, \<^verbatim>\<open>with_tool\<close> and \<^verbatim>\<open>with_tools\<close>
  allocate a new pipeline whose tools are the receiver's followed by the appended ones,
  with the receiver's configuration (the same object) and \<open>built = False\<close>; every
  pipeline that existed before, the receiver among them, and every configuration is
  unchanged. \<^verbatim>\<open>with_preset\<close> with a registered name whose factory returns a pipeline and
  leaves the existing pipelines and configurations alone allocates a new pipeline whose
  tools are the receiver's followed by the preset pipeline's, with \<open>built = False\<close> and
  with the configuration of the preset pipeline; the existing pipelines and
  configurations are unchanged. For \<^verbatim>\<open>ExamplePreset\<close> and no \<^verbatim>\<open>config\<close> keyword that
  configuration is the receiver's.
\<close>

theorem with_operations_append:
  assumes "self < length (stacks w)"
  shows "fst (with_tool self tool w) = length (stacks w)
       \<and> stacks (snd (with_tool self tool w)) =
           stacks w @ [\<lparr>config = config (stacks w ! self), tools = tools (stacks w ! self) @ [tool],
                         mcp = mcp (stacks w ! self), built = False\<rparr>]
       \<and> configs (snd (with_tool self tool w)) = configs w
       \<and> fst (with_tools self ts w) = length (stacks w)
       \<and> stacks (snd (with_tools self ts w)) =
           stacks w @ [\<lparr>config = config (stacks w ! self), tools = tools (stacks w ! self) @ ts,
                         mcp = mcp (stacks w ! self), built = False\<rparr>]
       \<and> configs (snd (with_tools self ts w)) = configs w
       \<and> (\<forall>preset_class ps w1.
             map_of ALL_PRESETS preset_name = Some preset_class
             \<and> preset_class (case config_kw of None \<Rightarrow> Some (config (stacks w ! self)) | Some c \<Rightarrow> c)
                   kw w = (Inr ps, w1)
             \<and> ps < length (stacks w1)
             \<and> take (length (stacks w)) (stacks w1) = stacks w
             \<and> take (length (configs w)) (configs w1) = configs w
             \<longrightarrow> fst (with_preset ALL_PRESETS extractOne self preset_name config_kw kw w)
                    = Inr (length (stacks w1))
               \<and> stacks (snd (with_preset ALL_PRESETS extractOne self preset_name config_kw kw w))
                    = stacks w1 @
                      [\<lparr>config = config (stacks w1 ! ps),
                        tools = tools (stacks w ! self) @ tools (stacks w1 ! ps),
                        mcp = (case mcp (stacks w1 ! ps) of
                                 Some m \<Rightarrow> Some m | None \<Rightarrow> mcp (stacks w ! self)),
                        built = False\<rparr>]
               \<and> take (length (stacks w))
                    (stacks (snd (with_preset ALL_PRESETS extractOne self preset_name config_kw kw w)))
                    = stacks w
               \<and> take (length (configs w))
                    (configs (snd (with_preset ALL_PRESETS extractOne self preset_name config_kw kw w)))
                    = configs w)
       \<and> (map_of ALL_PRESETS preset_name = Some (ExamplePreset_create setup_logging HelloWorld)
             \<longrightarrow> fst (with_preset ALL_PRESETS extractOne self preset_name None kw w)
                    = Inr (length (stacks w) + 2)
               \<and> stacks (snd (with_preset ALL_PRESETS extractOne self preset_name None kw w))
                      ! (length (stacks w) + 2)
                    = \<lparr>config = config (stacks w ! self),
                       tools = tools (stacks w ! self) @ [HelloWorld],
                       mcp = mcp (stacks w ! self), built = False\<rparr>
               \<and> take (length (stacks w))
                    (stacks (snd (with_preset ALL_PRESETS extractOne self preset_name None kw w)))
                    = stacks w
               \<and> configs (snd (with_preset ALL_PRESETS extractOne self preset_name None kw w))
                    = configs w)"
proof -
  have tool: "fst (with_tool self tool w) = length (stacks w)
       \<and> stacks (snd (with_tool self tool w)) =
           stacks w @ [\<lparr>config = config (stacks w ! self), tools = tools (stacks w ! self) @ [tool],
                         mcp = mcp (stacks w ! self), built = False\<rparr>]
       \<and> configs (snd (with_tool self tool w)) = configs w"
    using assms by (simp add: with_tool_eq)
  have tools: "fst (with_tools self ts w) = length (stacks w)
       \<and> stacks (snd (with_tools self ts w)) =
           stacks w @ [\<lparr>config = config (stacks w ! self), tools = tools (stacks w ! self) @ ts,
                         mcp = mcp (stacks w ! self), built = False\<rparr>]
       \<and> configs (snd (with_tools self ts w)) = configs w"
    using assms by (simp add: with_tools_eq)
  have preset: "fst (with_preset ALL_PRESETS extractOne self preset_name config_kw kw w)
                    = Inr (length (stacks w1))
               \<and> stacks (snd (with_preset ALL_PRESETS extractOne self preset_name config_kw kw w))
                    = stacks w1 @
                      [\<lparr>config = config (stacks w1 ! ps),
                        tools = tools (stacks w ! self) @ tools (stacks w1 ! ps),
                        mcp = (case mcp (stacks w1 ! ps) of
                                 Some m \<Rightarrow> Some m | None \<Rightarrow> mcp (stacks w ! self)),
                        built = False\<rparr>]
               \<and> take (length (stacks w))
                    (stacks (snd (with_preset ALL_PRESETS extractOne self preset_name config_kw kw w)))
                    = stacks w
               \<and> take (length (configs w))
                    (configs (snd (with_preset ALL_PRESETS extractOne self preset_name config_kw kw w)))
                    = configs w"
    if h: "map_of ALL_PRESETS preset_name = Some preset_class"
          "preset_class (case config_kw of None \<Rightarrow> Some (config (stacks w ! self)) | Some c \<Rightarrow> c)
                   kw w = (Inr ps, w1)"
          "ps < length (stacks w1)"
          "take (length (stacks w)) (stacks w1) = stacks w"
          "take (length (configs w)) (configs w1) = configs w"
    for preset_class ps w1
  proof -
    from arg_cong[OF h(4), of length] have len: "length (stacks w) \<le> length (stacks w1)"
      by simp
    with assms have self1: "self < length (stacks w1)" by simp
    from h(4) assms have same: "stacks w1 ! self = stacks w ! self"
      by (metis nth_take)
    from len h(4) have t: "take (length (stacks w)) (stacks w1 @ [x]) = stacks w" for x
      by simp
    show ?thesis
      using with_preset_found[OF h(1) h(2) self1 h(3), of extractOne] same t h(5)
      by (simp cong: option.case_cong)
  qed
  have example: "fst (with_preset ALL_PRESETS extractOne self preset_name None kw w)
                    = Inr (length (stacks w) + 2)
               \<and> stacks (snd (with_preset ALL_PRESETS extractOne self preset_name None kw w))
                      ! (length (stacks w) + 2)
                    = \<lparr>config = config (stacks w ! self),
                       tools = tools (stacks w ! self) @ [HelloWorld],
                       mcp = mcp (stacks w ! self), built = False\<rparr>
               \<and> take (length (stacks w))
                    (stacks (snd (with_preset ALL_PRESETS extractOne self preset_name None kw w)))
                    = stacks w
               \<and> configs (snd (with_preset ALL_PRESETS extractOne self preset_name None kw w))
                    = configs w"
    if h: "map_of ALL_PRESETS preset_name = Some (ExamplePreset_create setup_logging HelloWorld)"
  proof -
    let ?w1 = "w\<lparr>stacks := stacks w @
                 [\<lparr>config = config (stacks w ! self), tools = [], mcp = None, built = False\<rparr>,
                  \<lparr>config = config (stacks w ! self), tools = [HelloWorld], mcp = None, built = False\<rparr>]\<rparr>"
    have c: "ExamplePreset_create setup_logging HelloWorld
               (case None of None \<Rightarrow> Some (config (stacks w ! self)) | Some c \<Rightarrow> c) kw w
             = (Inr (Suc (length (stacks w))), ?w1)"
      by (simp add: ExamplePreset_create_Some)
    show ?thesis
      using with_preset_found[OF h c, of extractOne] assms
      by (simp add: nth_append)
  qed
  from tool tools preset example show ?thesis by blast
qed

text \<open>
  C1 as stated fails for \<^verbatim>\<open>with_preset\<close>: called with the keyword \<^verbatim>\<open>config\<close>, the new
  pipeline has that configuration, not the receiver's.
\<close>

theorem with_preset_config_counterexample:
  "fst (with_preset [(''example_preset'', ExamplePreset_create any_level alpha_tool)] weak_match
          0 ''example_preset'' (Some (Some 1)) [] example_world) = Inr 3
   \<and> config (stacks (snd (with_preset [(''example_preset'', ExamplePreset_create any_level alpha_tool)]
                              weak_match 0 ''example_preset'' (Some (Some 1)) [] example_world)) ! 3)
       \<noteq> config (stacks example_world ! 0)"
  by (simp add: with_preset_def ExamplePreset_create_def MCPStackCore_init_def with_tool_def
        set_tools_def example_world_def nth_append)

theorem with_operations_append_witness:
  "0 < length (stacks example_world)
   \<and> fst (with_tool 0 alpha_tool example_world) = 1
   \<and> stacks (snd (with_tool 0 alpha_tool example_world)) ! 1
       = \<lparr>config = 0, tools = [alpha_tool], mcp = None, built = False\<rparr>
   \<and> stacks (snd (with_tool 0 alpha_tool example_world)) ! 0 = stacks example_world ! 0
   \<and> fst (with_preset [(''example_preset'', ExamplePreset_create any_level alpha_tool)] weak_match
            0 ''example_preset'' None [] example_world) = Inr 3
   \<and> stacks (snd (with_preset [(''example_preset'', ExamplePreset_create any_level alpha_tool)]
                     weak_match 0 ''example_preset'' None [] example_world)) ! 3
       = \<lparr>config = 0, tools = [alpha_tool], mcp = None, built = False\<rparr>"
  using with_operations_append
          [of 0 example_world alpha_tool "[]"
              "[(''example_preset'', ExamplePreset_create any_level alpha_tool)]"
              "''example_preset''" None "[]" weak_match any_level alpha_tool]
  by (simp add: example_world_def with_tool_def with_tools_def with_preset_def
        ExamplePreset_create_def MCPStackCore_init_def set_tools_def nth_append)

text \<open>
  C9, as the code has it. For a name that is not in the preset registry, \<^verbatim>\<open>with_preset\<close>
  raises a preset error and leaves the store, and with it the receiver, as it was. The
  message names the unknown preset and, when the fuzzy matcher's best candidate scores at
  least 80, that one candidate; otherwise no registered name is given.
\<close>

theorem with_preset_unknown:
  assumes "preset_name \<notin> fst ` set ALL_PRESETS"
  shows "with_preset ALL_PRESETS extractOne self preset_name config_kw kw w =
           (Inl (MCPStackPresetError
                   (''Unknown preset: '' @ preset_name @ ''.'' @
                    (case extractOne preset_name (map fst ALL_PRESETS) of
                       None \<Rightarrow> ''''
                     | Some (best, score) \<Rightarrow>
                         if score \<ge> 80
                         then '' Did you mean '' @ [CHR 0x27] @ best @ [CHR 0x27] @ ''?''
                         else ''''))),
            w)"
proof -
  from assms have "map_of ALL_PRESETS preset_name = None"
    by (simp add: map_of_eq_None_iff)
  then show ?thesis
    by (simp add: with_preset_def suggestion_def)
qed

theorem with_preset_unknown_witness:
  "''unknown_preset'' \<notin> fst ` set [(''example_preset'', ExamplePreset_create any_level alpha_tool)]
   \<and> with_preset [(''example_preset'', ExamplePreset_create any_level alpha_tool)] strong_match
        0 ''unknown_preset'' None [] example_world
     = (Inl (MCPStackPresetError
          (''Unknown preset: unknown_preset. Did you mean '' @ [CHR 0x27] @ ''example_preset''
             @ [CHR 0x27] @ ''?'')),
        example_world)"
  using with_preset_unknown
          [of "''unknown_preset''" "[(''example_preset'', ExamplePreset_create any_level alpha_tool)]"
              strong_match 0 None "[]" example_world]
  by (simp add: strong_match_def)

text \<open>
  C9 as stated fails: with one registered preset and a best candidate scoring below 80, the
  message of the error does not contain the registered name.
\<close>

theorem with_preset_unknown_counterexample:
  "fst (with_preset [(''example_preset'', ExamplePreset_create any_level alpha_tool)] weak_match
          0 ''unknown_preset'' None [] example_world)
     = Inl (MCPStackPresetError ''Unknown preset: unknown_preset.'')
   \<and> \<not> occurs_in ''example_preset'' ''Unknown preset: unknown_preset.''"
  by (simp add: with_preset_def suggestion_def weak_match_def)

subsection \<open>Build\<close>

text \<open>
  C2. On a pipeline with no tools, \<^verbatim>\<open>build\<close> raises the validation error of \<^verbatim>\<open>_validate\<close>,
  whatever the format, the options, the configuration and the registries, and the store
  is left as it was: the built flag keeps its value, so an unbuilt pipeline is still
  unbuilt.
\<close>

theorem build_empty_fails:
  assumes "tools (stacks w ! self) = []"
  shows "build generators extractOne self type kw w
           = (Inl (MCPStackValidationError ''At least one tool must be added.''), w)
         \<and> built (stacks (snd (build generators extractOne self type kw w)) ! self)
             = built (stacks w ! self)
         \<and> (\<not> built (stacks w ! self)
              \<longrightarrow> \<not> built (stacks (snd (build generators extractOne self type kw w)) ! self))"
  using assms by (simp add: build_def validate_def)

theorem build_empty_fails_witness:
  "tools (stacks example_world ! 0) = []
   \<and> build [(''fastmcp'', empty_generator)] weak_match 0 ''fastmcp''
        \<lparr>kw_command = None, kw_args = None, kw_cwd = None, kw_module_name = None,
         kw_pipeline_config_path = None, kw_save_path = None\<rparr> example_world
       = (Inl (MCPStackValidationError ''At least one tool must be added.''), example_world)
   \<and> \<not> built (stacks (snd (build [(''fastmcp'', empty_generator)] weak_match 0 ''fastmcp''
        \<lparr>kw_command = None, kw_args = None, kw_cwd = None, kw_module_name = None,
         kw_pipeline_config_path = None, kw_save_path = None\<rparr> example_world)) ! 0)"
  using build_empty_fails
          [of example_world 0 "[(''fastmcp'', empty_generator)]" weak_match "''fastmcp''"
              "\<lparr>kw_command = None, kw_args = None, kw_cwd = None, kw_module_name = None,
                kw_pipeline_config_path = None, kw_save_path = None\<rparr>"]
  by (simp add: example_world_def)

lemma initialize_mcp_fields:
  "self < length (stacks w) \<Longrightarrow>
   mcp (stacks (initialize_mcp self w) ! self) \<noteq> None
   \<and> tools (stacks (initialize_mcp self w) ! self) = tools (stacks w ! self)
   \<and> built (stacks (initialize_mcp self w) ! self) = built (stacks w ! self)
   \<and> config (stacks (initialize_mcp self w) ! self) = config (stacks w ! self)
   \<and> length (stacks (initialize_mcp self w)) = length (stacks w)
   \<and> configs (initialize_mcp self w) = configs w
   \<and> trace (initialize_mcp self w) = trace w
   \<and> files (initialize_mcp self w) = files w"
  by (cases "mcp (stacks w ! self)") (auto simp: initialize_mcp_def set_mcp_def)

lemma initialize_tools_frame:
  "stacks (snd (initialize_tools self w)) = stacks w
   \<and> configs (snd (initialize_tools self w)) = configs w
   \<and> mcps (snd (initialize_tools self w)) = mcps w
   \<and> files (snd (initialize_tools self w)) = files w
   \<and> trace (snd (initialize_tools self w))
       = trace w @ snd (initialize_loop (tools (stacks w ! self)))"
  by (simp add: initialize_tools_def split: prod.splits)

lemma initialize_tools_fst:
  "fst (initialize_tools self w) = fst (initialize_loop (tools (stacks w ! self)))"
  by (simp add: initialize_tools_def split: prod.splits)

lemma register_actions_ok:
  "mcp (stacks w ! self) \<noteq> None \<Longrightarrow>
   fst (register_actions self w) = Inr ()
   \<and> stacks (snd (register_actions self w)) = stacks w
   \<and> configs (snd (register_actions self w)) = configs w
   \<and> files (snd (register_actions self w)) = files w
   \<and> trace (snd (register_actions self w)) = trace w"
  by (auto simp: register_actions_def Let_def)

lemma build_reaches_dispatch:
  assumes "self < length (stacks w)"
    and "validate self w = Inr ()"
    and "fst (initialize_loop (tools (stacks w ! self))) = Inr ()"
  shows "build generators extractOne self type kw w
           = generate_config generators extractOne self type kw
               (set_built self True
                  (snd (register_actions self
                     (snd (initialize_tools self (initialize_mcp self w))))))"
proof -
  let ?w1 = "initialize_mcp self w"
  let ?w2 = "snd (initialize_tools self ?w1)"
  have t: "tools (stacks ?w1 ! self) = tools (stacks w ! self)"
    using initialize_mcp_fields[OF assms(1)] by simp
  obtain w2 where i: "initialize_tools self ?w1 = (Inr (), w2)"
    using initialize_tools_fst[of self ?w1] assms(3) t
    by (cases "initialize_tools self ?w1") auto
  have "mcp (stacks w2 ! self) \<noteq> None"
    using initialize_mcp_fields[OF assms(1)] initialize_tools_frame[of self ?w1] i by simp
  from register_actions_ok[OF this]
  obtain w3 where r: "register_actions self w2 = (Inr (), w3)"
    by (cases "register_actions self w2") auto
  show ?thesis
    using assms(2) i r by (simp add: build_def Let_def)
qed

lemma dispatch_store:
  assumes "self < length (stacks w)"
  shows "built (stacks (set_built self True
                  (snd (register_actions self
                     (snd (initialize_tools self (initialize_mcp self w)))))) ! self)
       \<and> mcp (stacks (set_built self True
                  (snd (register_actions self
                     (snd (initialize_tools self (initialize_mcp self w)))))) ! self) \<noteq> None
       \<and> tools (stacks (set_built self True
                  (snd (register_actions self
                     (snd (initialize_tools self (initialize_mcp self w)))))) ! self)
           = tools (stacks w ! self)"
proof -
  let ?w1 = "initialize_mcp self w"
  let ?w2 = "snd (initialize_tools self ?w1)"
  have m: "mcp (stacks ?w2 ! self) \<noteq> None"
    using initialize_mcp_fields[OF assms] initialize_tools_frame[of self ?w1] by simp
  have s: "stacks (snd (register_actions self ?w2)) = stacks ?w1"
    using register_actions_ok[OF m] initialize_tools_frame[of self ?w1] by simp
  have l: "self < length (stacks ?w1)"
    using initialize_mcp_fields[OF assms] assms by simp
  show ?thesis
    using s l initialize_mcp_fields[OF assms] by (simp add: set_built_def)
qed

text \<open>
  A failure of \<^verbatim>\<open>build\<close> before the format is looked up (in validation or in the
  initialisation of a tool) leaves the built flag as it was.
\<close>

lemma build_early_failure_keeps_flag:
  assumes "self < length (stacks w)"
    and "validate self w = Inl e
         \<or> validate self w = Inr () \<and> fst (initialize_loop (tools (stacks w ! self))) = Inl e"
  shows "fst (build generators extractOne self type kw w) = Inl e
       \<and> built (stacks (snd (build generators extractOne self type kw w)) ! self)
           = built (stacks w ! self)"
proof -
  let ?w1 = "initialize_mcp self w"
  have t: "tools (stacks ?w1 ! self) = tools (stacks w ! self)"
    and b: "built (stacks ?w1 ! self) = built (stacks w ! self)"
    using initialize_mcp_fields[OF assms(1)] by simp_all
  have i: "fst (initialize_tools self ?w1) = fst (initialize_loop (tools (stacks w ! self)))"
    using initialize_tools_fst[of self ?w1] t by simp
  have s: "stacks (snd (initialize_tools self ?w1)) = stacks ?w1"
    using initialize_tools_frame[of self ?w1] by simp
  from assms(2) show ?thesis
  proof
    assume "validate self w = Inl e"
    then show ?thesis by (simp add: build_def)
  next
    assume a: "validate self w = Inr () \<and> fst (initialize_loop (tools (stacks w ! self))) = Inl e"
    with i have "fst (initialize_tools self ?w1) = Inl e" by simp
    then obtain w2 where w2: "initialize_tools self ?w1 = (Inl e, w2)"
      by (cases "initialize_tools self ?w1") auto
    with s have "stacks w2 = stacks ?w1" by simp
    with a w2 b show ?thesis by (simp add: build_def Let_def)
  qed
qed

text \<open>
  C10. When validation and the initialisation of the tools succeed, the format is looked
  up in a store where the pipeline's built flag is already true. If the format is not in
  the generator registry, \<^verbatim>\<open>build\<close> raises the validation error of \<^verbatim>\<open>_generate_config\<close> and
  produces no artifact, the flag is true afterwards, and on the resulting store \<^verbatim>\<open>run\<close>
  passes its checks (its outcome is that of the serving runtime) and \<^verbatim>\<open>save\<close> succeeds.
\<close>

theorem build_unknown_format_leaves_built:
  assumes "self < length (stacks w)"
    and "validate self w = Inr ()"
    and "fst (initialize_loop (tools (stacks w ! self))) = Inr ()"
  shows "build generators extractOne self type kw w
           = generate_config generators extractOne self type kw
               (set_built self True
                  (snd (register_actions self
                     (snd (initialize_tools self (initialize_mcp self w))))))
       \<and> built (stacks (set_built self True
                  (snd (register_actions self
                     (snd (initialize_tools self (initialize_mcp self w)))))) ! self)
       \<and> (map_of generators type = None \<longrightarrow>
            fst (build generators extractOne self type kw w)
              = Inl (MCPStackValidationError
                       (''Unknown config type: '' @ type @ ''.''
                          @ suggestion extractOne type (map fst generators)))
            \<and> built (stacks (snd (build generators extractOne self type kw w)) ! self)
            \<and> fst (run mcp_run self (snd (build generators extractOne self type kw w)))
                = (case mcp_run of Returns \<Rightarrow> Inr () | Raises msg \<Rightarrow> Inl (PyException msg))
            \<and> fst (save self path (snd (build generators extractOne self type kw w))) = Inr ())"
proof -
  let ?w4 = "set_built self True
                  (snd (register_actions self
                     (snd (initialize_tools self (initialize_mcp self w)))))"
  note b = build_reaches_dispatch[OF assms, of generators extractOne type kw]
  note d = dispatch_store[OF assms(1)]
  have "build generators extractOne self type kw w
          = (Inl (MCPStackValidationError
                       (''Unknown config type: '' @ type @ ''.''
                          @ suggestion extractOne type (map fst generators))), ?w4)"
    if "map_of generators type = None"
    using b that by (simp add: generate_config_def)
  then show ?thesis
    using b d by (auto simp: run_def save_def Let_def split: outcome.splits)
qed

theorem build_unknown_format_leaves_built_witness:
  "0 < length (stacks alpha_world)
   \<and> validate 0 alpha_world = Inr ()
   \<and> fst (initialize_loop (tools (stacks alpha_world ! 0))) = Inr ()
   \<and> \<not> built (stacks alpha_world ! 0)
   \<and> fst (build [(''fastmcp'', empty_generator)] weak_match 0 ''nope'' no_kwargs alpha_world)
       = Inl (MCPStackValidationError ''Unknown config type: nope.'')
   \<and> built (stacks (snd (build [(''fastmcp'', empty_generator)] weak_match 0 ''nope'' no_kwargs
                            alpha_world)) ! 0)
   \<and> fst (run Returns 0
            (snd (build [(''fastmcp'', empty_generator)] weak_match 0 ''nope'' no_kwargs
                    alpha_world))) = Inr ()
   \<and> fst (save 0 ''pipeline.json''
            (snd (build [(''fastmcp'', empty_generator)] weak_match 0 ''nope'' no_kwargs
                    alpha_world))) = Inr ()"
proof -
  have h: "0 < length (stacks alpha_world)" "validate 0 alpha_world = Inr ()"
    "fst (initialize_loop (tools (stacks alpha_world ! 0))) = Inr ()"
    by (simp_all add: alpha_world_def alpha_tool_def validate_def validate_for_tools_def
          get_env_var_def initialize_def)
  have n: "\<not> built (stacks alpha_world ! 0)"
    by (simp add: alpha_world_def)
  show ?thesis
    using h n build_unknown_format_leaves_built
                [OF h, of "[(''fastmcp'', empty_generator)]" weak_match "''nope''" no_kwargs
                    Returns "''pipeline.json''", THEN conjunct2, THEN conjunct2]
    by (simp add: suggestion_def weak_match_def)
qed

lemma set_built_fields:
  "stacks (set_built self b w) = (stacks w)[self := (stacks w ! self)\<lparr>built := b\<rparr>]
   \<and> configs (set_built self b w) = configs w
   \<and> mcps (set_built self b w) = mcps w
   \<and> os_environ (set_built self b w) = os_environ w
   \<and> files (set_built self b w) = files w
   \<and> trace (set_built self b w) = trace w"
  by (simp add: set_built_def)

lemma set_built_twice:
  "set_built self b (set_built self c w) = set_built self b w"
  by (cases "self < length (stacks w)") (simp_all add: set_built_def list_update_beyond)

lemma built_mcp_update:
  "(s :: MCPStackCore)\<lparr>built := b, mcp := m\<rparr> = s\<lparr>mcp := m, built := b\<rparr>"
  by (cases s) simp

lemma validate_set_built:
  "self < length (stacks w) \<Longrightarrow> validate self (set_built self b w) = validate self w"
  by (simp add: validate_def set_built_def)

lemma initialize_mcp_set_built:
  "self < length (stacks w) \<Longrightarrow>
   initialize_mcp self (set_built self b w) = set_built self b (initialize_mcp self w)"
  by (cases "mcp (stacks w ! self)")
     (simp_all add: initialize_mcp_def set_built_def set_mcp_def built_mcp_update)

lemma initialize_tools_set_built:
  "self < length (stacks w) \<Longrightarrow>
   initialize_tools self (set_built self b w)
     = (fst (initialize_tools self w), set_built self b (snd (initialize_tools self w)))"
  by (simp add: initialize_tools_def set_built_def split: prod.splits)

lemma register_actions_set_built:
  "self < length (stacks w) \<Longrightarrow>
   register_actions self (set_built self b w)
     = (fst (register_actions self w), set_built self b (snd (register_actions self w)))"
  by (cases "mcp (stacks w ! self)")
     (simp_all add: register_actions_def set_built_def Let_def)

lemma build_set_built:
  assumes "self < length (stacks w)"
  shows "build generators extractOne self type kw (set_built self b w) =
     (case validate self w of
        Inl e \<Rightarrow> (Inl e, set_built self b w)
      | Inr u \<Rightarrow>
          (case initialize_tools self (initialize_mcp self w) of
             (Inl e, w2) \<Rightarrow> (Inl e, set_built self b w2)
           | (Inr u, w2) \<Rightarrow>
               (case register_actions self w2 of
                  (Inl e, w3) \<Rightarrow> (Inl e, set_built self b w3)
                | (Inr u, w3) \<Rightarrow>
                    generate_config generators extractOne self type kw (set_built self True w3))))"
proof -
  let ?w1 = "initialize_mcp self w"
  have l1: "self < length (stacks ?w1)"
    using initialize_mcp_fields[OF assms] assms by simp
  have l2: "self < length (stacks (snd (initialize_tools self ?w1)))"
    using l1 initialize_tools_frame[of self ?w1] by simp
  show ?thesis
    unfolding build_def Let_def validate_set_built[OF assms] initialize_mcp_set_built[OF assms]
      initialize_tools_set_built[OF l1]
    using register_actions_set_built[OF l2, of b]
    by (auto simp: set_built_twice split: sum.splits prod.splits)
qed

text \<open>
  C4, as the code has it. \<^verbatim>\<open>build\<close> does not look at the built flag: on a pipeline whose
  flag is true it does what it does on the same pipeline with the flag false. The outcome
  and the calls made on the tools are the same, and when validation and the
  initialisation of the tools succeed the two calls end in the same store, with the flag
  true and the generator's result returned.
\<close>

theorem build_ignores_built_flag:
  assumes "self < length (stacks w)"
  shows "fst (build generators extractOne self type kw (set_built self True w))
           = fst (build generators extractOne self type kw (set_built self False w))
       \<and> trace (snd (build generators extractOne self type kw (set_built self True w)))
           = trace (snd (build generators extractOne self type kw (set_built self False w)))
       \<and> (validate self w = Inr () \<and> fst (initialize_loop (tools (stacks w ! self))) = Inr ()
            \<longrightarrow> build generators extractOne self type kw (set_built self True w)
                  = build generators extractOne self type kw (set_built self False w))"
proof -
  let ?w1 = "initialize_mcp self w"
  have t: "tools (stacks ?w1 ! self) = tools (stacks w ! self)"
    using initialize_mcp_fields[OF assms] by simp
  have m: "mcp (stacks (snd (initialize_tools self ?w1)) ! self) \<noteq> None"
    using initialize_mcp_fields[OF assms] initialize_tools_frame[of self ?w1] by simp
  have r: "fst (register_actions self (snd (initialize_tools self ?w1))) = Inr ()"
    using register_actions_ok[OF m] by simp
  have i: "fst (initialize_tools self ?w1) = fst (initialize_loop (tools (stacks w ! self)))"
    using initialize_tools_fst[of self ?w1] t by simp
  show ?thesis
    unfolding build_set_built[OF assms]
    using r i
    by (auto simp: set_built_fields split: sum.splits prod.splits)
qed

theorem build_ignores_built_flag_witness:
  "0 < length (stacks alpha_world)
   \<and> validate 0 alpha_world = Inr ()
   \<and> fst (initialize_loop (tools (stacks alpha_world ! 0))) = Inr ()
   \<and> built (stacks (set_built 0 True alpha_world) ! 0)
   \<and> build [(''fastmcp'', empty_generator)] weak_match 0 ''fastmcp'' no_kwargs
        (set_built 0 True alpha_world)
       = build [(''fastmcp'', empty_generator)] weak_match 0 ''fastmcp'' no_kwargs
           (set_built 0 False alpha_world)
   \<and> fst (build [(''fastmcp'', empty_generator)] weak_match 0 ''fastmcp'' no_kwargs
            (set_built 0 False alpha_world))
       = Inr (JDict [(''mcpServers'', JDict [])])"
proof -
  have h: "0 < length (stacks alpha_world)"
    by (simp add: alpha_world_def)
  have v: "validate 0 alpha_world = Inr ()"
    "fst (initialize_loop (tools (stacks alpha_world ! 0))) = Inr ()"
    by (simp_all add: alpha_world_def alpha_tool_def validate_def validate_for_tools_def
          get_env_var_def initialize_def)
  have b: "built (stacks (set_built 0 True alpha_world) ! 0)"
    by (simp add: set_built_def alpha_world_def)
  have f: "fst (build [(''fastmcp'', empty_generator)] weak_match 0 ''fastmcp'' no_kwargs
            (set_built 0 False alpha_world))
       = Inr (JDict [(''mcpServers'', JDict [])])"
    by (simp add: build_def validate_def validate_for_tools_def get_env_var_def
          initialize_mcp_def set_mcp_def initialize_tools_def initialize_def
          register_actions_def set_built_def generate_config_def empty_generator_def
          alpha_world_def alpha_tool_def Let_def)
  show ?thesis
    using h v b f
      build_ignores_built_flag
        [OF h, of "[(''fastmcp'', empty_generator)]" weak_match "''fastmcp''" no_kwargs]
    by simp
qed

text \<open>
  C4 as stated fails: after a first successful \<^verbatim>\<open>build\<close> the flag is true, and a second
  \<^verbatim>\<open>build\<close> on the same pipeline does not raise; it initialises the tool again and
  returns the generator's artifact.
\<close>

theorem build_twice_counterexample:
  "built (stacks (snd (build [(''fastmcp'', empty_generator)] weak_match 0 ''fastmcp'' no_kwargs
                          alpha_world)) ! 0)
   \<and> fst (build [(''fastmcp'', empty_generator)] weak_match 0 ''fastmcp'' no_kwargs
            (snd (build [(''fastmcp'', empty_generator)] weak_match 0 ''fastmcp'' no_kwargs
                    alpha_world)))
       = Inr (JDict [(''mcpServers'', JDict [])])
   \<and> trace (snd (build [(''fastmcp'', empty_generator)] weak_match 0 ''fastmcp'' no_kwargs
            (snd (build [(''fastmcp'', empty_generator)] weak_match 0 ''fastmcp'' no_kwargs
                    alpha_world))))
       = [ToolInitialize ''Alpha'', ToolInitialize ''Alpha'']"
proof -
  have first: "build [(''fastmcp'', empty_generator)] weak_match 0 ''fastmcp'' no_kwargs alpha_world
      = (Inr (JDict [(''mcpServers'', JDict [])]),
         alpha_world\<lparr>mcps := [\<lparr>mcp_name = ''mcpstack'', registered = [''alpha_query'']\<rparr>],
                      stacks := [\<lparr>config = 0, tools = [alpha_tool], mcp = Some 0, built = True\<rparr>],
                      trace := [ToolInitialize ''Alpha'']\<rparr>)"
    by (simp add: build_def validate_def validate_for_tools_def get_env_var_def
          initialize_mcp_def set_mcp_def initialize_tools_def initialize_def
          register_actions_def set_built_def generate_config_def empty_generator_def
          alpha_world_def alpha_tool_def Let_def)
  show ?thesis
    unfolding first
    by (simp add: build_def validate_def validate_for_tools_def get_env_var_def
          initialize_mcp_def set_mcp_def initialize_tools_def initialize_def
          register_actions_def set_built_def generate_config_def empty_generator_def
          alpha_world_def alpha_tool_def Let_def)
qed

subsection \<open>Run and teardown\<close>

lemma teardown_backends_eq:
  "teardown_backends cls bs
     = [BackendTeardown cls nm. (nm, b) \<leftarrow> bs, teardown_attr b \<noteq> None]"
proof (induction bs)
  case Nil
  then show ?case by simp
next
  case (Cons x bs)
  obtain nm b where x: "x = (nm, b)" by (cases x)
  show ?case
    by (simp add: x Cons teardown_backend_def split: option.splits outcome.splits)
qed

lemma teardown_loop_eq:
  "teardown_loop ts
     = [BackendTeardown (class_name t) nm.
          t \<leftarrow> ts, (nm, b) \<leftarrow> (case backends t of None \<Rightarrow> [] | Some bs \<Rightarrow> bs),
          teardown_attr b \<noteq> None]"
  by (induction ts) (simp_all add: teardown_backends_eq split: option.splits)

text \<open>
  C5. On a built pipeline with a serving-runtime handle, whatever the serve call does
  (return or raise) and whatever each backend's \<^verbatim>\<open>teardown\<close> does (return or raise),
  \<^verbatim>\<open>run\<close> calls the serve call and then \<^verbatim>\<open>teardown\<close> once on every backend that has it, of
  every tool that has backends, in order; nothing else changes in the store; and the
  outcome of \<^verbatim>\<open>run\<close> is the outcome of the serve call alone.
\<close>

theorem run_tears_down_every_backend:
  assumes "built (stacks w ! self)" and "mcp (stacks w ! self) = Some m"
  shows "fst (run mcp_run self w)
           = (case mcp_run of Returns \<Rightarrow> Inr () | Raises msg \<Rightarrow> Inl (PyException msg))
       \<and> trace (snd (run mcp_run self w))
           = trace w @ [Serve m]
             @ [BackendTeardown (class_name t) nm.
                  t \<leftarrow> tools (stacks w ! self),
                  (nm, b) \<leftarrow> (case backends t of None \<Rightarrow> [] | Some bs \<Rightarrow> bs),
                  teardown_attr b \<noteq> None]
       \<and> snd (run mcp_run self w) = w\<lparr>trace := trace (snd (run mcp_run self w))\<rparr>"
  using assms
  by (simp add: run_def teardown_tools_def teardown_loop_eq Let_def)

theorem run_tears_down_every_backend_witness:
  "built (stacks serving_world ! 0) \<and> mcp (stacks serving_world ! 0) = Some 0
   \<and> fst (run Returns 0 serving_world) = Inr ()
   \<and> trace (snd (run Returns 0 serving_world))
       = [Serve 0, BackendTeardown ''Gamma'' ''db'', BackendTeardown ''Delta'' ''cache'']
   \<and> fst (run (Raises ''serve failed'') 0 serving_world) = Inl (PyException ''serve failed'')
   \<and> trace (snd (run (Raises ''serve failed'') 0 serving_world))
       = [Serve 0, BackendTeardown ''Gamma'' ''db'', BackendTeardown ''Delta'' ''cache'']"
proof -
  have h: "built (stacks serving_world ! 0)" "mcp (stacks serving_world ! 0) = Some 0"
    by (simp_all add: serving_world_def)
  show ?thesis
    using h run_tears_down_every_backend[OF h, of Returns]
      run_tears_down_every_backend[OF h, of "Raises ''serve failed''"]
    by (simp add: serving_world_def gamma_tool_def delta_tool_def)
qed

subsection \<open>Save and load\<close>










end
